theory Spec2Isabelle
  imports Main
begin

section \<open>smallsh: a shallow embedding of smallsh.c\<close>

text \<open>
  The interpreter is a single C file. Its functions are embedded as HOL functions over
  an explicit machine state: the linked list of background pids lives in a store of
  \<open>Node\<close> cells, the operating system is a process table, a descriptor table and a few
  oracles (\<open>world\<close>) that answer what the program cannot decide itself (whether a file
  opens, how a program terminates). A call that does not return in C (a blocking wait on
  a child that never terminates, a walk along a cyclic list) is \<open>None\<close>; undefined
  behaviour that the hardware turns into a crash (reading through \<open>NULL\<close>) is a value of
  \<open>abort\<close>. The flags of the source (\<open>TRUE\<close>/\<open>FALSE\<close> in an \<open>int\<close>) only ever hold these
  two values and are \<open>bool\<close>.
\<close>

subsection \<open>Constants and data\<close>

type_synonym pid_t = int
type_synonym addr = nat

definition MAX_COMMAND_LEN :: nat where
  "MAX_COMMAND_LEN = 2049"

definition SIGINT :: int where "SIGINT = 2"
definition SIGKILL :: int where "SIGKILL = 9"
definition SIGTSTP :: int where "SIGTSTP = 20"

text \<open>The octal mode \<open>0600\<close>: read and write for the owner.\<close>

definition mode_0600 :: nat where "mode_0600 = 6 * 8 * 8"

definition STDIN_FILENO :: nat where "STDIN_FILENO = 0"
definition STDOUT_FILENO :: nat where "STDOUT_FILENO = 1"

text \<open>\<open>struct Node\<close>: one cell of the list of background pids; address 0 is \<open>NULL\<close>.\<close>

record Node =
  data :: pid_t
  "next" :: addr

text \<open>\<open>struct Input\<close>: a pointer field is \<open>None\<close> when it is \<open>NULL\<close>.\<close>

record Input =
  command :: "string option"
  num_args :: nat
  args :: "string list option"
  input_file :: "string option"
  output_file :: "string option"
  is_background :: bool

definition init_input :: Input where
  "init_input = \<lparr> command = None, num_args = 0, args = None, input_file = None,
                  output_file = None, is_background = False \<rparr>"

text \<open>
  A cell of the store. \<open>free\<close> turns a live cell into a freed one; the bytes stay what
  they were, and the state remembers (field \<open>uaf\<close>) that the program touched one.
\<close>

datatype cell = Unalloc | Live Node | Freed Node

text \<open>How a process ends, and what the process table knows about a child.\<close>

datatype ending = Exited nat | Signaled nat bool

datatype pstate = Running "ending option" | Zombie ending

datatype disposition = SIG_DFL | SIG_IGN | Handler_set_foreground_mode

datatype oflag = O_RDONLY | O_WRONLY | O_CREAT | O_TRUNC

record ofile =
  path :: string
  oflags :: "oflag list"
  creat_mode :: "nat option"

datatype syscall = Kill pid_t int | Waitpid pid_t bool | Fflush_stdout | Write_fd nat string

record shell =
  foreground_mode :: bool
  heap :: "addr \<Rightarrow> cell"
  brk :: addr
  uaf :: bool
  procs :: "pid_t \<Rightarrow> pstate option"
  sigint :: disposition
  sigtstp :: disposition
  fds :: "nat \<Rightarrow> ofile option"
  cwd :: string
  out :: "string list"
  trace :: "syscall list"
  pid_head :: addr
  exit_code :: int
  parse_status :: bool
  program_status :: bool

text \<open>What the program asks of its environment.\<close>

record world =
  can_open :: "string \<Rightarrow> oflag list \<Rightarrow> bool"
  open_max :: nat
  can_exec :: "string \<Rightarrow> bool"
  run :: "pid_t \<Rightarrow> ending option"
  chdir_to :: "string \<Rightarrow> string \<Rightarrow> string option"
  home :: "string option"
  own_pid :: nat
  junk :: int

text \<open>
  How a forked child ends its run of \<open>execute_smallsh\<close>: it calls \<open>exit\<close>, or it replaces
  its image; the state is the child's copy at that moment.
\<close>

datatype child_end = Exits int shell | Execs string "string list" shell | Child_crashes

datatype abort = NullPointer | BadAccess | OutOfBounds | BufferOverflow | InChild child_end

subsection \<open>The wait status\<close>

text \<open>
  The kernel's encoding of a termination in the \<open>int\<close> that \<open>waitpid\<close> stores, and the
  macros of \<open>sys/wait.h\<close> that read it, as the platform header defines them:
  \<open>WTERMSIG(s) = s & 0x7f\<close>, \<open>WIFEXITED(s) = (WTERMSIG(s) == 0)\<close>,
  \<open>WIFSIGNALED(s) = (((signed char) ((s & 0x7f) + 1) >> 1) > 0)\<close>,
  \<open>WEXITSTATUS(s) = (s & 0xff00) >> 8\<close>. On \<open>int\<close>, \<open>s mod 128\<close> is \<open>s & 0x7f\<close> for
  negative \<open>s\<close> too.
\<close>

fun wstatus :: "ending \<Rightarrow> int" where
  "wstatus (Exited n) = int (n mod 256) * 256"
| "wstatus (Signaled sg core) = int (sg mod 128) + (if core then 128 else 0)"

text \<open>The endings a process can have: an exit code is a byte, a signal is one of 1 to 64.\<close>

fun valid_ending :: "ending \<Rightarrow> bool" where
  "valid_ending (Exited n) = (n < 256)"
| "valid_ending (Signaled sg core) = (0 < sg \<and> sg \<le> 64)"

definition WTERMSIG :: "int \<Rightarrow> int" where
  "WTERMSIG s = s mod 128"

definition WIFEXITED :: "int \<Rightarrow> bool" where
  "WIFEXITED s = (WTERMSIG s = 0)"

definition WIFSIGNALED :: "int \<Rightarrow> bool" where
  "WIFSIGNALED s =
     (let t = s mod 128 + 1; sc = (if 128 \<le> t then t - 256 else t) in sc div 2 > 0)"

definition WEXITSTATUS :: "int \<Rightarrow> int" where
  "WEXITSTATUS s = (s div 256) mod 256"

subsection \<open>Formatted output\<close>

definition digit_char :: "nat \<Rightarrow> char" where
  "digit_char d = ''0123456789'' ! d"

function show_nat :: "nat \<Rightarrow> string" where
  "show_nat n = (if n < 10 then [digit_char n] else show_nat (n div 10) @ [digit_char (n mod 10)])"
  by pat_completeness auto
termination
  by (relation "measure (\<lambda>n. n)") auto

declare show_nat.simps [simp del]

definition show_int :: "int \<Rightarrow> string" where
  "show_int i = (if i < 0 then CHR ''-'' # show_nat (nat (- i)) else show_nat (nat i))"

definition nl :: string where
  "nl = [CHR 0x0A]"

definition printf :: "string \<Rightarrow> shell \<Rightarrow> shell" where
  "printf text s = s \<lparr> out := out s @ [text] \<rparr>"

subsection \<open>Signal dispositions\<close>

definition default_sigint :: "shell \<Rightarrow> shell" where
  "default_sigint s = s \<lparr> sigint := SIG_DFL \<rparr>"

definition ignore_sigint :: "shell \<Rightarrow> shell" where
  "ignore_sigint s = s \<lparr> sigint := SIG_IGN \<rparr>"

text \<open>
  The handler of \<open>SIGTSTP\<close> in the interpreter. Its calls into the C library are
  recorded in \<open>trace\<close>, in order: \<open>fflush(stdout)\<close>, then \<open>write\<close>.
\<close>

definition set_foreground_mode :: "shell \<Rightarrow> shell" where
  "set_foreground_mode s =
     (let s1 = s \<lparr> trace := trace s @ [Fflush_stdout] \<rparr> in
      if foreground_mode s1
      then (let message = nl @ ''Exiting foreground-only mode'' @ nl @ '': '' in
            s1 \<lparr> trace := trace s1 @ [Write_fd STDOUT_FILENO message],
                 foreground_mode := False \<rparr>)
      else (let message = nl @ ''Entering foreground-only mode (& is now ignored)'' @ nl @ '': '' in
            s1 \<lparr> trace := trace s1 @ [Write_fd STDOUT_FILENO message],
                 foreground_mode := True \<rparr>))"

text \<open>
  Which library calls POSIX lists as safe inside a signal handler (signal-safety(7)):
  \<open>write\<close>, \<open>kill\<close> and \<open>waitpid\<close> are, \<open>fflush\<close> works on the buffered stream
  and is not.
\<close>

fun async_signal_safe :: "syscall \<Rightarrow> bool" where
  "async_signal_safe Fflush_stdout = False"
| "async_signal_safe (Write_fd fd text) = True"
| "async_signal_safe (Kill p sg) = True"
| "async_signal_safe (Waitpid p nohang) = True"

definition parent_handler :: "shell \<Rightarrow> shell" where
  "parent_handler s = (ignore_sigint s) \<lparr> sigtstp := Handler_set_foreground_mode \<rparr>"

definition child_handler :: "Input \<Rightarrow> shell \<Rightarrow> shell" where
  "child_handler inp s =
     (let s1 = s \<lparr> sigtstp := SIG_IGN \<rparr> in
      if is_background inp then ignore_sigint s1 else default_sigint s1)"

subsection \<open>Descriptors\<close>

text \<open>
  \<open>open\<close> fails (\<open>-1\<close>) when the file cannot be opened this way or no descriptor below
  the limit is free; otherwise it takes the lowest free descriptor. \<open>dup2\<close> fails and
  changes nothing when the old descriptor is not open.
\<close>

definition os_open :: "world \<Rightarrow> string \<Rightarrow> oflag list \<Rightarrow> nat option \<Rightarrow> shell \<Rightarrow> int \<times> shell" where
  "os_open w p fl md s =
     (if can_open w p fl
      then (case find (\<lambda>fd. fds s fd = None) [0..<open_max w] of
              None \<Rightarrow> (- 1, s)
            | Some fd \<Rightarrow>
                (int fd, s \<lparr> fds := (fds s)(fd := Some \<lparr> path = p, oflags = fl, creat_mode = md \<rparr>) \<rparr>))
      else (- 1, s))"

definition dup2 :: "int \<Rightarrow> nat \<Rightarrow> shell \<Rightarrow> shell" where
  "dup2 oldfd newfd s =
     (if oldfd < 0 \<or> fds s (nat oldfd) = None then s
      else s \<lparr> fds := (fds s)(newfd := fds s (nat oldfd)) \<rparr>)"

subsection \<open>The child's side of \<open>execute_smallsh\<close>\<close>

text \<open>
  \<open>exit_in_err_child\<close> prints the message and calls \<open>exit(1)\<close>; the memory it frees is
  the child's own copy and has no counterpart here.
\<close>

definition exit_in_err_child :: "string \<Rightarrow> shell \<Rightarrow> child_end" where
  "exit_in_err_child message s = Exits 1 (printf (message @ nl) s)"

text \<open>The argument vector: the command name, then \<open>num_args\<close> arguments.\<close>

definition build_cmd :: "string \<Rightarrow> Input \<Rightarrow> string list" where
  "build_cmd c inp = c # (case args inp of None \<Rightarrow> [] | Some as \<Rightarrow> take (num_args inp) as)"

text \<open>The two redirection blocks; \<open>Inl\<close> is the child that has exited.\<close>

definition redirect_input :: "world \<Rightarrow> Input \<Rightarrow> shell \<Rightarrow> child_end + shell" where
  "redirect_input w inp s =
     (case input_file inp of
        Some f \<Rightarrow>
          (let (fd, s1) = os_open w f [O_RDONLY] None s in
           if fd = - 1 then Inl (exit_in_err_child ''Error: input file could not be opened'' s1)
           else Inr (dup2 fd STDIN_FILENO s1))
      | None \<Rightarrow>
          (if is_background inp
           then (let (open_null, s1) = os_open w ''/dev/null'' [O_RDONLY] None s in
                 Inr (dup2 open_null STDIN_FILENO s1))
           else Inr s))"

definition redirect_output :: "world \<Rightarrow> Input \<Rightarrow> shell \<Rightarrow> child_end + shell" where
  "redirect_output w inp s =
     (case output_file inp of
        Some f \<Rightarrow>
          (let (fd, s1) = os_open w f [O_WRONLY, O_CREAT, O_TRUNC] (Some mode_0600) s in
           if fd = - 1 then Inl (exit_in_err_child ''Error: output file could not be opened'' s1)
           else Inr (dup2 fd STDOUT_FILENO s1))
      | None \<Rightarrow>
          (if is_background inp
           then (let (open_null, s1) = os_open w ''/dev/null'' [O_WRONLY] None s in
                 Inr (dup2 open_null STDOUT_FILENO s1))
           else Inr s))"

definition execute_child :: "world \<Rightarrow> Input \<Rightarrow> shell \<Rightarrow> child_end" where
  "execute_child w inp s =
     (let s1 = child_handler inp s in
      case command inp of
        None \<Rightarrow> Child_crashes
      | Some c \<Rightarrow>
          (let cmd = build_cmd c inp in
           case redirect_input w inp s1 of
             Inl e \<Rightarrow> e
           | Inr s2 \<Rightarrow>
               (case redirect_output w inp s2 of
                  Inl e \<Rightarrow> e
                | Inr s3 \<Rightarrow>
                    if can_exec w c then Execs c cmd s3
                    else exit_in_err_child ''Error: command could not be processed'' s3)))"

subsection \<open>The store of list cells\<close>

text \<open>
  A read or write through \<open>NULL\<close> or through an address that was never allocated aborts.
  A read or write of a freed cell is undefined in C; here it sees the bytes the program
  left there and sets \<open>uaf\<close>. \<open>malloc\<close> hands out fresh addresses and is taken never to
  fail (the source does not test its result).
\<close>

definition load :: "addr \<Rightarrow> shell \<Rightarrow> abort + (Node \<times> shell)" where
  "load a s =
     (if a = 0 then Inl NullPointer
      else case heap s a of
             Live n \<Rightarrow> Inr (n, s)
           | Freed n \<Rightarrow> Inr (n, s \<lparr> uaf := True \<rparr>)
           | Unalloc \<Rightarrow> Inl BadAccess)"

definition store_next :: "addr \<Rightarrow> addr \<Rightarrow> shell \<Rightarrow> abort + shell" where
  "store_next a v s =
     (if a = 0 then Inl NullPointer
      else case heap s a of
             Live n \<Rightarrow> Inr (s \<lparr> heap := (heap s)(a := Live (n \<lparr> next := v \<rparr>)) \<rparr>)
           | Freed n \<Rightarrow> Inr (s \<lparr> heap := (heap s)(a := Freed (n \<lparr> next := v \<rparr>)), uaf := True \<rparr>)
           | Unalloc \<Rightarrow> Inl BadAccess)"

definition free :: "addr \<Rightarrow> shell \<Rightarrow> abort + shell" where
  "free a s =
     (if a = 0 then Inr s
      else case heap s a of
             Live n \<Rightarrow> Inr (s \<lparr> heap := (heap s)(a := Freed n) \<rparr>)
           | Freed n \<Rightarrow> Inl BadAccess
           | Unalloc \<Rightarrow> Inl BadAccess)"

definition malloc :: "shell \<Rightarrow> addr \<times> shell" where
  "malloc s = (let a = Suc (brk s) in (a, s \<lparr> brk := a, heap := (heap s)(a := Live \<lparr> data = 0, next = 0 \<rparr>) \<rparr>))"

subsection \<open>Processes\<close>

text \<open>
  \<open>waitpid\<close> returns its result and, when it reaped a child, the status it stored.
  Without \<open>WNOHANG\<close> it waits for a running child to end, which a child that never
  ends (\<open>Running None\<close>) does not allow. A pid that is no child of the interpreter gives
  \<open>-1\<close>. Of the signals only \<open>SIGKILL\<close> is ever sent by the program: it ends a running
  child at once.
\<close>

definition reap :: "pid_t \<Rightarrow> ending \<Rightarrow> shell \<Rightarrow> int \<times> int option \<times> shell" where
  "reap p e s = (p, Some (wstatus e), s \<lparr> procs := (procs s)(p := None) \<rparr>)"

definition waitpid_nohang :: "pid_t \<Rightarrow> shell \<Rightarrow> int \<times> int option \<times> shell" where
  "waitpid_nohang p s =
     (let s1 = s \<lparr> trace := trace s @ [Waitpid p True] \<rparr> in
      case procs s p of
        None \<Rightarrow> (- 1, None, s1)
      | Some (Running e) \<Rightarrow> (0, None, s1)
      | Some (Zombie e) \<Rightarrow> reap p e s1)"

definition waitpid_block :: "pid_t \<Rightarrow> shell \<Rightarrow> (int \<times> int option \<times> shell) option" where
  "waitpid_block p s =
     (let s1 = s \<lparr> trace := trace s @ [Waitpid p False] \<rparr> in
      case procs s p of
        None \<Rightarrow> Some (- 1, None, s1)
      | Some (Running None) \<Rightarrow> None
      | Some (Running (Some e)) \<Rightarrow> Some (reap p e s1)
      | Some (Zombie e) \<Rightarrow> Some (reap p e s1))"

definition os_kill :: "pid_t \<Rightarrow> int \<Rightarrow> shell \<Rightarrow> shell" where
  "os_kill p sg s =
     (let s1 = s \<lparr> trace := trace s @ [Kill p sg] \<rparr> in
      if sg = SIGKILL
      then (case procs s p of
              Some (Running e) \<Rightarrow> s1 \<lparr> procs := (procs s)(p := Some (Zombie (Signaled (nat SIGKILL) False))) \<rparr>
            | Some (Zombie e) \<Rightarrow> s1
            | None \<Rightarrow> s1)
      else s1)"

subsection \<open>Built-in commands\<close>

partial_function (option) exit_loop :: "addr \<Rightarrow> shell \<Rightarrow> (abort + shell) option" where
  [code]: "exit_loop temp s =
     (if temp = 0 then Some (Inr s)
      else case load temp s of
             Inl a \<Rightarrow> Some (Inl a)
           | Inr (n, s1) \<Rightarrow>
               (case waitpid_block (data n) (os_kill (data n) SIGKILL s1) of
                  None \<Rightarrow> None
                | Some (r, st, s2) \<Rightarrow>
                    (case load temp s2 of
                       Inl a \<Rightarrow> Some (Inl a)
                     | Inr (n', s3) \<Rightarrow> exit_loop (next n') s3)))"

definition exit_smallsh :: "addr \<Rightarrow> shell \<Rightarrow> (abort + shell) option" where
  "exit_smallsh head s = (if head \<noteq> 0 then exit_loop head s else Some (Inr s))"

text \<open>\<open>chdir\<close>; \<open>chdir(NULL)\<close>, which is what an unset \<open>HOME\<close> gives, fails.\<close>

definition os_chdir :: "world \<Rightarrow> string option \<Rightarrow> shell \<Rightarrow> int \<times> shell" where
  "os_chdir w p s =
     (case p of
        None \<Rightarrow> (- 1, s)
      | Some d \<Rightarrow> (case chdir_to w (cwd s) d of
                     None \<Rightarrow> (- 1, s)
                   | Some c \<Rightarrow> (0, s \<lparr> cwd := c \<rparr>)))"

definition cd_smallsh :: "world \<Rightarrow> string option \<Rightarrow> shell \<Rightarrow> int \<times> shell" where
  "cd_smallsh w p s =
     (case p of
        Some d \<Rightarrow> os_chdir w (Some d) s
      | None \<Rightarrow> os_chdir w (home w) s)"

definition status_smallsh :: "int \<Rightarrow> shell \<Rightarrow> shell" where
  "status_smallsh ec s =
     (if WIFSIGNALED ec
      then printf (''terminated by signal '' @ show_int (WTERMSIG ec) @ nl) s
      else if WIFEXITED ec
      then printf (''exit value '' @ show_int (WEXITSTATUS ec) @ nl) s
      else s)"

subsection \<open>\<open>execute_smallsh\<close>\<close>

text \<open>
  How the child of a successful \<open>fork\<close> will end: by its own \<open>exit\<close> when the set-up
  fails, otherwise as the program it runs ends (\<open>run\<close>).
\<close>

definition child_ending :: "world \<Rightarrow> Input \<Rightarrow> shell \<Rightarrow> pid_t \<Rightarrow> ending option" where
  "child_ending w inp s p =
     (case execute_child w inp s of
        Exits n c \<Rightarrow> Some (Exited (nat n))
      | Execs c cmd s' \<Rightarrow> run w p
      | Child_crashes \<Rightarrow> Some (Signaled 11 True))"

text \<open>
  \<open>fork_pid\<close> is what \<open>fork\<close> returned in the process that is modelled: \<open>0\<close> in the
  child, \<open>-1\<close> when no process was created, the child's pid in the interpreter.
\<close>

definition execute_smallsh :: "world \<Rightarrow> int \<Rightarrow> Input \<Rightarrow> shell \<Rightarrow> (abort + int \<times> shell) option" where
  "execute_smallsh w fork_pid inp s =
     (let exit_code0 = 0 in
      if fork_pid = 0 then Some (Inl (InChild (execute_child w inp s)))
      else if fork_pid = - 1 then Some (Inr (1, s))
      else
        (let s0 = s \<lparr> procs := (procs s)(fork_pid := Some (Running (child_ending w inp s fork_pid))) \<rparr>;
             s1 = parent_handler s0 in
         if \<not> is_background inp
         then (case waitpid_block fork_pid s1 of
                 None \<Rightarrow> None
               | Some (r, st, s2) \<Rightarrow>
                   (let ec = (case st of None \<Rightarrow> exit_code0 | Some v \<Rightarrow> v) in
                    Some (Inr (ec, if WIFSIGNALED ec
                                   then printf (''terminated by signal '' @ show_int (WTERMSIG ec) @ nl) s2
                                   else s2))))
         else (let (new_node, s2) = malloc s1;
                   s3 = s2 \<lparr> heap := (heap s2)(new_node := Live \<lparr> data = fork_pid, next = pid_head s2 \<rparr>),
                            pid_head := new_node \<rparr>
               in Some (Inr (exit_code0, printf (''Background pid is '' @ show_int fork_pid @ ''.'' @ nl) s3)))))"

subsection \<open>Reading and parsing a line\<close>

text \<open>
  \<open>expand_smallsh\<close> copies the line into a buffer of \<open>MAX_COMMAND_LEN\<close> bytes, with the
  pid (printed into ten bytes) in place of every \<open>$$\<close>; text that does not fit with its
  terminating zero overruns the buffer.
\<close>

fun expand :: "string \<Rightarrow> string \<Rightarrow> string" where
  "expand pid_str (c1 # c2 # cs) =
     (if c2 = CHR ''$'' \<and> c1 = CHR ''$'' then pid_str @ expand pid_str cs
      else c1 # expand pid_str (c2 # cs))"
| "expand pid_str cs = cs"

definition expand_smallsh :: "world \<Rightarrow> string \<Rightarrow> abort + string" where
  "expand_smallsh w cmd_string =
     (let pid_str = show_nat (own_pid w) in
      if 10 \<le> length pid_str then Inl BufferOverflow
      else (let command_copy = expand pid_str cmd_string in
            if MAX_COMMAND_LEN \<le> length command_copy then Inl BufferOverflow
            else Inr command_copy))"

text \<open>
  The successive results of \<open>strtok(s, " ")\<close>: the maximal runs of characters other
  than the space.
\<close>

fun fields :: "string \<Rightarrow> string list" where
  "fields [] = [[]]"
| "fields (c # cs) =
     (if c = CHR '' '' then [] # fields cs
      else (case fields cs of [] \<Rightarrow> [[c]] | f # fs \<Rightarrow> (c # f) # fs))"

definition strtok_all :: "string \<Rightarrow> string list" where
  "strtok_all s = filter (\<lambda>t. t \<noteq> []) (fields s)"

definition count_args :: "string list \<Rightarrow> nat" where
  "count_args tokens =
     length (takeWhile (\<lambda>t. \<not> (t = ''<'' \<or> t = ''>'' \<or> t = ''&'')) (tl tokens))"

text \<open>The loop over \<open>i = num_args .. num_tokens - 1\<close> that picks up the file names.\<close>

fun redirect_loop :: "string list \<Rightarrow> nat list \<Rightarrow> Input \<Rightarrow> abort + Input" where
  "redirect_loop tokens [] inp = Inr inp"
| "redirect_loop tokens (i # js) inp =
     (if tokens ! i = ''<'' \<or> tokens ! i = ''>''
      then (let file_name_index = i + 1 in
            if length tokens \<le> file_name_index then Inl OutOfBounds
            else if tokens ! i = ''<''
            then redirect_loop tokens js (inp \<lparr> input_file := Some (tokens ! file_name_index) \<rparr>)
            else redirect_loop tokens js (inp \<lparr> output_file := Some (tokens ! file_name_index) \<rparr>))
      else redirect_loop tokens js inp)"

text \<open>
  \<open>parse_input\<close> counts the spaces to size the token array and then calls \<open>strtok\<close> that
  many times; where \<open>strtok\<close> has no more tokens it returns \<open>NULL\<close>, which \<open>strlen\<close> reads.
  The result is the returned code (\<open>TRUE\<close> parsed, \<open>FALSE\<close> comment) and the struct.
\<close>

definition parse_input :: "world \<Rightarrow> shell \<Rightarrow> string \<Rightarrow> Input \<Rightarrow> abort + (bool \<times> Input)" where
  "parse_input w s input inp =
     (case expand_smallsh w input of
        Inl a \<Rightarrow> Inl a
      | Inr input' \<Rightarrow>
          (let num_tokens = length (filter (\<lambda>c. c = CHR '' '') input') + 1;
               toks = strtok_all input' in
           if length toks < num_tokens then Inl NullPointer
           else
             (let tokens = take num_tokens toks in
              if hd (tokens ! 0) = CHR ''#'' then Inr (False, inp)
              else
                (let inp1 = inp \<lparr> command := Some (tokens ! 0) \<rparr>;
                     n_args = count_args tokens;
                     inp2 = (if tokens ! (num_tokens - 1) = ''&'' \<and> foreground_mode s = False
                             then inp1 \<lparr> is_background := True \<rparr> else inp1);
                     inp3 = (if n_args > 0
                             then inp2 \<lparr> num_args := n_args, args := Some (take n_args (tl tokens)) \<rparr>
                             else inp2)
                 in case redirect_loop tokens [n_args..<num_tokens] inp3 of
                      Inl a \<Rightarrow> Inl a
                    | Inr inp4 \<Rightarrow> Inr (True, inp4)))))"

text \<open>
  \<open>get_input\<close>: \<open>line\<close> is what \<open>getline\<close> read, \<open>None\<close> at the end of input. The result
  is the returned \<open>program_status\<close>, the struct, and the state with \<open>parse_status\<close>
  as the call left it.
\<close>

definition get_input :: "world \<Rightarrow> string option \<Rightarrow> Input \<Rightarrow> shell \<Rightarrow> abort + (bool \<times> Input \<times> shell)" where
  "get_input w line inp s =
     (let s1 = printf '': '' s in
      case line of
        None \<Rightarrow> Inr (False, inp, s1)
      | Some input \<Rightarrow>
          (if input = [] then Inl OutOfBounds
           else
             (let input_length = length input;
                  input' = butlast input in
              case (if input_length > 1
                    then (case parse_input w s1 input' inp of
                            Inl a \<Rightarrow> Inl a
                          | Inr (st, inp') \<Rightarrow> Inr (inp', s1 \<lparr> parse_status := st \<rparr>))
                    else Inr (inp, s1)) of
                Inl a \<Rightarrow> Inl a
              | Inr (inp2, s2) \<Rightarrow>
                  (if parse_status s2 = True
                   then (case command inp2 of
                           None \<Rightarrow> Inl NullPointer
                         | Some c \<Rightarrow> Inr (c \<noteq> ''exit'', inp2, s2))
                   else Inr (True, inp2, s2)))))"

subsection \<open>The reaping sweep\<close>

text \<open>The two \<open>printf\<close> branches of \<open>wait_background\<close>.\<close>

definition report_background :: "int \<Rightarrow> int \<Rightarrow> shell \<Rightarrow> shell" where
  "report_background wait_result ec s =
     (if WIFEXITED ec \<and> wait_result \<noteq> - 1
      then printf (''background pid '' @ show_int wait_result @ '' is done: exit value ''
                   @ show_int (WEXITSTATUS ec) @ nl) s
      else if WIFSIGNALED ec
      then printf (''background pid '' @ show_int wait_result @ '' is done: terminated by signal ''
                   @ show_int (WTERMSIG ec) @ nl) s
      else s)"

text \<open>
  The inner \<open>while (curr->next)\<close> of the removal, entered with \<open>curr\<close> (here \<open>cur\<close>) at the head: it
  steps to the next cell and unlinks it when it holds the pid; the loop test then reads
  \<open>curr->next\<close> again.
\<close>

partial_function (option) unlink_loop :: "int \<Rightarrow> addr \<Rightarrow> shell \<Rightarrow> (abort + shell) option" where
  [code]: "unlink_loop wait_result cur s =
     (case load cur s of
        Inl a \<Rightarrow> Some (Inl a)
      | Inr (c, s1) \<Rightarrow>
          (if next c = 0 then Some (Inr s1)
           else
             (let prev = cur; cur' = next c in
              case load cur' s1 of
                Inl a \<Rightarrow> Some (Inl a)
              | Inr (c', s2) \<Rightarrow>
                  (if data c' = wait_result
                   then (case store_next prev (next c') s2 of
                           Inl a \<Rightarrow> Some (Inl a)
                         | Inr s3 \<Rightarrow>
                             (case store_next cur' 0 s3 of
                                Inl a \<Rightarrow> Some (Inl a)
                              | Inr s4 \<Rightarrow>
                                  (case free cur' s4 of
                                     Inl a \<Rightarrow> Some (Inl a)
                                   | Inr s5 \<Rightarrow> unlink_loop wait_result cur' s5)))
                   else unlink_loop wait_result cur' s2))))"

text \<open>The removal of the cell holding \<open>wait_result\<close> from the list at \<open>pid_head\<close>.\<close>

definition remove_pid :: "int \<Rightarrow> shell \<Rightarrow> (abort + shell) option" where
  "remove_pid wait_result s =
     (let cur = pid_head s in
      case load cur s of
        Inl a \<Rightarrow> Some (Inl a)
      | Inr (c, s1) \<Rightarrow>
          (if data c = wait_result
           then (let s2 = s1 \<lparr> pid_head := next c \<rparr> in
                 case store_next cur 0 s2 of
                   Inl a \<Rightarrow> Some (Inl a)
                 | Inr s3 \<Rightarrow> Some (free cur s3))
           else unlink_loop wait_result cur s1))"

text \<open>
  The outer loop; \<open>ec\<close> is the local \<open>exit_code\<close>, which keeps its value when \<open>waitpid\<close>
  stores nothing.
\<close>

partial_function (option) wait_loop :: "addr \<Rightarrow> int \<Rightarrow> shell \<Rightarrow> (abort + shell) option" where
  [code]: "wait_loop temp ec s =
     (if temp = 0 then Some (Inr s)
      else
        (case load temp s of
           Inl a \<Rightarrow> Some (Inl a)
         | Inr (n, s0) \<Rightarrow>
             (case waitpid_nohang (data n) s0 of
                (wait_result, st, s1) \<Rightarrow>
                  (let ec1 = (case st of None \<Rightarrow> ec | Some v \<Rightarrow> v) in
                   case (if wait_result \<noteq> 0
                         then remove_pid wait_result (report_background wait_result ec1 s1)
                         else Some (Inr s1)) of
                     None \<Rightarrow> None
                   | Some (Inl a) \<Rightarrow> Some (Inl a)
                   | Some (Inr s2) \<Rightarrow>
                       (if pid_head s2 \<noteq> 0
                        then (case load temp s2 of
                                Inl a \<Rightarrow> Some (Inl a)
                              | Inr (n', s3) \<Rightarrow> wait_loop (next n') ec1 s3)
                        else Some (Inr s2))))))"

definition wait_background :: "world \<Rightarrow> shell \<Rightarrow> (abort + shell) option" where
  "wait_background w s = wait_loop (pid_head s) (junk w) s"

subsection \<open>\<open>main\<close>\<close>

partial_function (option) free_nodes_loop :: "addr \<Rightarrow> shell \<Rightarrow> (abort + shell) option" where
  [code]: "free_nodes_loop temp s =
     (if temp = 0 then Some (Inr (s \<lparr> pid_head := 0 \<rparr>))
      else (case load (pid_head s) s of
              Inl a \<Rightarrow> Some (Inl a)
            | Inr (n, s1) \<Rightarrow>
                (case free temp (s1 \<lparr> pid_head := next n \<rparr>) of
                   Inl a \<Rightarrow> Some (Inl a)
                 | Inr s2 \<Rightarrow> free_nodes_loop (pid_head s2) s2)))"

definition free_nodes :: "shell \<Rightarrow> (abort + shell) option" where
  "free_nodes s = free_nodes_loop (pid_head s) s"

text \<open>
  What the world does during one turn of the loop: the background children that have
  ended since the last sweep, the deliveries of \<open>SIGTSTP\<close> while the interpreter waits for
  the line, the line, and what \<open>fork\<close> returns if the line leads to one.
\<close>

record event =
  finished :: "pid_t list"
  tstp :: nat
  line :: "string option"
  fork_result :: int

definition progress :: "pid_t list \<Rightarrow> shell \<Rightarrow> shell" where
  "progress ps s =
     s \<lparr> procs := (\<lambda>p. case procs s p of
                          Some (Running (Some e)) \<Rightarrow> if p \<in> set ps then Some (Zombie e) else procs s p
                        | other \<Rightarrow> other) \<rparr>"

definition deliver_sigtstp :: "shell \<Rightarrow> shell" where
  "deliver_sigtstp s =
     (if sigtstp s = Handler_set_foreground_mode then set_foreground_mode s else s)"

text \<open>
  The branch of the loop body that runs once \<open>get_input\<close> has returned: \<open>exit_smallsh\<close>,
  a built-in, or \<open>execute_smallsh\<close>, with the assignments to \<open>exit_code\<close>.
\<close>

definition dispatch :: "world \<Rightarrow> int \<Rightarrow> Input \<Rightarrow> shell \<Rightarrow> (abort + shell) option" where
  "dispatch w fork_pid inp s =
     (if program_status s = False then exit_smallsh (pid_head s) s
      else (case command inp of
              None \<Rightarrow> Some (Inr s)
            | Some c \<Rightarrow>
                if c = ''cd''
                then (case args inp of
                        Some as \<Rightarrow>
                          (case as of
                             [] \<Rightarrow> Some (Inl OutOfBounds)
                           | a # rest \<Rightarrow> (let (r, s1) = cd_smallsh w (Some a) s in Some (Inr (s1 \<lparr> exit_code := r \<rparr>))))
                      | None \<Rightarrow> (let (r, s1) = cd_smallsh w None s in Some (Inr (s1 \<lparr> exit_code := r \<rparr>))))
                else if c = ''status''
                then Some (Inr (status_smallsh (exit_code s) s))
                else (case execute_smallsh w fork_pid inp s of
                        None \<Rightarrow> None
                      | Some (Inl a) \<Rightarrow> Some (Inl a)
                      | Some (Inr (r, s1)) \<Rightarrow> Some (Inr (s1 \<lparr> exit_code := r \<rparr>)))))"

definition loop_body :: "world \<Rightarrow> event \<Rightarrow> shell \<Rightarrow> (abort + shell) option" where
  "loop_body w ev s =
     (case wait_background w (progress (finished ev) s) of
        None \<Rightarrow> None
      | Some (Inl a) \<Rightarrow> Some (Inl a)
      | Some (Inr s1) \<Rightarrow>
          (case get_input w (line ev) init_input ((deliver_sigtstp ^^ tstp ev) s1) of
             Inl a \<Rightarrow> Some (Inl a)
           | Inr (ps, inp, s2) \<Rightarrow> dispatch w (fork_result ev) inp (s2 \<lparr> program_status := ps \<rparr>)))"

text \<open>
  The \<open>do ... while (program_status == TRUE)\<close>: one event per turn; when the events are
  used up the input is at its end.
\<close>

fun main_loop :: "world \<Rightarrow> event list \<Rightarrow> shell \<Rightarrow> (abort + shell) option" where
  "main_loop w [] s =
     loop_body w \<lparr> finished = [], tstp = 0, line = None, fork_result = - 1 \<rparr> s"
| "main_loop w (ev # evs) s =
     (case loop_body w ev s of
        None \<Rightarrow> None
      | Some (Inl a) \<Rightarrow> Some (Inl a)
      | Some (Inr s') \<Rightarrow> if program_status s' = True then main_loop w evs s' else Some (Inr s'))"

text \<open>
  \<open>main\<close> from the state the process starts in: the global and the locals get their
  initial values, the handlers are installed, the loop runs, the list is freed and
  \<open>main\<close> returns 0.
\<close>

definition startup :: "shell \<Rightarrow> shell" where
  "startup s0 =
     parent_handler (s0 \<lparr> foreground_mode := False, pid_head := 0, exit_code := 0,
                          parse_status := True, program_status := True \<rparr>)"

text \<open>The loop entered in state \<open>s\<close>, and the statements of \<open>main\<close> that follow it.\<close>

definition main_from :: "world \<Rightarrow> event list \<Rightarrow> shell \<Rightarrow> (abort + int \<times> shell) option" where
  "main_from w evs s =
     (case main_loop w evs s of
        None \<Rightarrow> None
      | Some (Inl a) \<Rightarrow> Some (Inl a)
      | Some (Inr s1) \<Rightarrow>
          (case (if pid_head s1 \<noteq> 0 then free_nodes s1 else Some (Inr s1)) of
             None \<Rightarrow> None
           | Some (Inl a) \<Rightarrow> Some (Inl a)
           | Some (Inr s2) \<Rightarrow> Some (Inr (0, s2))))"

definition smallsh_main :: "world \<Rightarrow> event list \<Rightarrow> shell \<Rightarrow> (abort + int \<times> shell) option" where
  "smallsh_main w evs s0 = main_from w evs (startup s0)"

subsection \<open>The list of background pids as a list\<close>




subsection \<open>A concrete world and state\<close>

text \<open>
  A world in which every file but \<open>missing\<close> opens and every program but \<open>nosuch\<close>
  can be run, and the state of an interpreter started on a terminal. The concrete
  instances of the theorems below are taken here.
\<close>

definition ex_world :: world where
  "ex_world =
     \<lparr> can_open = (\<lambda>p fl. p \<noteq> ''missing''), open_max = 16, can_exec = (\<lambda>c. c \<noteq> ''nosuch''),
       run = (\<lambda>p. if p = 7 then Some (Exited 3) else if p = 8 then Some (Signaled 2 False)
                   else if p = 9 then None else Some (Exited 0)),
       chdir_to = (\<lambda>c d. if d = ''/nonexistent'' then None else Some d),
       home = Some ''/home/u'', own_pid = 4242, junk = 0 \<rparr>"

text \<open>The same world for a process that may hold three descriptors and no more.\<close>

definition ex_world_no_fd :: world where
  "ex_world_no_fd = ex_world \<lparr> open_max := 3 \<rparr>"

text \<open>The same world without a null device that can be opened.\<close>

definition ex_world_no_null :: world where
  "ex_world_no_null = ex_world \<lparr> can_open := (\<lambda>p fl. p \<noteq> ''missing'' \<and> p \<noteq> ''/dev/null'') \<rparr>"

definition ex_tty :: ofile where
  "ex_tty = \<lparr> path = ''/dev/tty'', oflags = [], creat_mode = None \<rparr>"

definition ex_shell :: shell where
  "ex_shell =
     \<lparr> foreground_mode = False, heap = (\<lambda>a. Unalloc), brk = 0, uaf = False, procs = (\<lambda>p. None),
       sigint = SIG_IGN, sigtstp = Handler_set_foreground_mode,
       fds = (\<lambda>fd. if fd < 3 then Some ex_tty else None),
       cwd = ''/'', out = [], trace = [], pid_head = 0, exit_code = 0, parse_status = True,
       program_status = True \<rparr>"

text \<open>
  The same interpreter with two background children, pid 5 started first and pid 6 after
  it, both of which have exited with code 0 and have not been reaped; and with the two
  still running.
\<close>

definition ex_two_cells :: "addr \<Rightarrow> cell" where
  "ex_two_cells =
     (\<lambda>a. if a = 1 then Live \<lparr> data = 5, next = 0 \<rparr>
          else if a = 2 then Live \<lparr> data = 6, next = 1 \<rparr> else Unalloc)"

definition ex_two_done :: shell where
  "ex_two_done =
     ex_shell \<lparr> heap := ex_two_cells, brk := 2,
                procs := (\<lambda>p. if p = 5 \<or> p = 6 then Some (Zombie (Exited 0)) else None),
                pid_head := 2 \<rparr>"


definition ex_request :: "string \<Rightarrow> string list \<Rightarrow> string option \<Rightarrow> string option \<Rightarrow> bool \<Rightarrow> Input" where
  "ex_request c as i out_f bg =
     \<lparr> command = Some c, num_args = length as, args = (if as = [] then None else Some as),
       input_file = i, output_file = out_f, is_background = bg \<rparr>"

definition ex_event :: "string \<Rightarrow> int \<Rightarrow> pid_t list \<Rightarrow> event" where
  "ex_event l f ps = \<lparr> finished = ps, tstp = 0, line = Some (l @ nl), fork_result = f \<rparr>"

section \<open>Properties\<close>

subsection \<open>The child: signals and redirection\<close>

lemma os_open_cases:
  "os_open w p fl md s = (r, s1) \<Longrightarrow>
     (r = - 1 \<and> s1 = s) \<or>
     (\<exists>fd. r = int fd \<and> fd < open_max w \<and> fds s fd = None \<and> can_open w p fl \<and>
           s1 = s \<lparr> fds := (fds s)(fd := Some \<lparr> path = p, oflags = fl, creat_mode = md \<rparr>) \<rparr>)"
  by (auto simp: os_open_def find_Some_iff split: if_splits option.splits)

lemma os_open_succeeds:
  assumes "can_open w p fl" "fd0 < open_max w" "fds s fd0 = None"
  shows "fst (os_open w p fl md s) \<noteq> - 1"
proof -
  have "find (\<lambda>fd. fds s fd = None) [0..<open_max w] \<noteq> None"
    using assms by (auto simp: find_None_iff)
  then show ?thesis using assms(1)
    by (auto simp: os_open_def split: option.splits)
qed

lemma os_open_signals:
  "os_open w p fl md s = (r, s1) \<Longrightarrow> sigint s1 = sigint s \<and> sigtstp s1 = sigtstp s"
  by (auto dest!: os_open_cases)

lemma dup2_signals: "sigint (dup2 a b s) = sigint s \<and> sigtstp (dup2 a b s) = sigtstp s"
  by (simp add: dup2_def)

lemma redirect_input_signals:
  "redirect_input w inp s = Inr s2 \<Longrightarrow> sigint s2 = sigint s \<and> sigtstp s2 = sigtstp s"
  by (auto simp: redirect_input_def dup2_signals split: option.splits if_splits prod.splits
           dest!: os_open_signals)

lemma redirect_output_signals:
  "redirect_output w inp s = Inr s2 \<Longrightarrow> sigint s2 = sigint s \<and> sigtstp s2 = sigtstp s"
  by (auto simp: redirect_output_def dup2_signals split: option.splits if_splits prod.splits
           dest!: os_open_signals)

lemma child_handler_signals:
  "sigtstp (child_handler inp s) = SIG_IGN \<and>
   sigint (child_handler inp s) = (if is_background inp then SIG_IGN else SIG_DFL)"
  by (simp add: child_handler_def ignore_sigint_def default_sigint_def Let_def)

lemma execute_child_Execs:
  "execute_child w inp s = Execs c cmd s' \<Longrightarrow>
     \<exists>s2. command inp = Some c \<and> cmd = build_cmd c inp \<and> can_exec w c \<and>
          redirect_input w inp (child_handler inp s) = Inr s2 \<and>
          redirect_output w inp s2 = Inr s'"
  by (auto simp: execute_child_def Let_def exit_in_err_child_def redirect_input_def redirect_output_def
           split: option.splits sum.splits if_splits prod.splits)

text \<open>
  C7. In the child, \<open>child_handler\<close> sets \<open>SIGTSTP\<close> to ignored whatever the background
  flag is, and \<open>SIGINT\<close> to ignored for a background request and to the default for a
  foreground one; these are the dispositions still in force when the child replaces its
  image.
\<close>

theorem child_signal_dispositions:
  "sigtstp (child_handler inp s) = SIG_IGN \<and>
   sigint (child_handler inp s) = (if is_background inp then SIG_IGN else SIG_DFL) \<and>
   (\<forall>c cmd s'. execute_child w inp s = Execs c cmd s' \<longrightarrow>
      sigtstp s' = SIG_IGN \<and> sigint s' = (if is_background inp then SIG_IGN else SIG_DFL))"
proof (intro conjI allI impI)
  fix c cmd s' assume "execute_child w inp s = Execs c cmd s'"
  then obtain s2 where a: "redirect_input w inp (child_handler inp s) = Inr s2"
    and b: "redirect_output w inp s2 = Inr s'"
    by (blast dest: execute_child_Execs)
  from redirect_input_signals[OF a] redirect_output_signals[OF b]
  show "sigtstp s' = SIG_IGN" "sigint s' = (if is_background inp then SIG_IGN else SIG_DFL)"
    using child_handler_signals[of inp s] by simp_all
qed (simp_all add: child_handler_signals)

theorem child_signal_dispositions_witness:
  "(case execute_child ex_world (ex_request ''sleep'' [''5''] None None True) ex_shell of
      Execs c cmd s' \<Rightarrow> sigtstp s' = SIG_IGN \<and> sigint s' = SIG_IGN
    | Exits n s' \<Rightarrow> False | Child_crashes \<Rightarrow> False) \<and>
   (case execute_child ex_world (ex_request ''ls'' [] None None False) ex_shell of
      Execs c cmd s' \<Rightarrow> sigtstp s' = SIG_IGN \<and> sigint s' = SIG_DFL
    | Exits n s' \<Rightarrow> False | Child_crashes \<Rightarrow> False)"
proof -
  have "case execute_child ex_world (ex_request ''sleep'' [''5''] None None True) ex_shell of
          Execs c cmd s' \<Rightarrow> True | Exits n s' \<Rightarrow> False | Child_crashes \<Rightarrow> False"
    by code_simp
  then obtain c cmd s' where
    bg: "execute_child ex_world (ex_request ''sleep'' [''5''] None None True) ex_shell = Execs c cmd s'"
    by (auto split: child_end.splits)
  have "case execute_child ex_world (ex_request ''ls'' [] None None False) ex_shell of
          Execs c cmd s' \<Rightarrow> True | Exits n s' \<Rightarrow> False | Child_crashes \<Rightarrow> False"
    by code_simp
  then obtain d dmd t' where
    fg: "execute_child ex_world (ex_request ''ls'' [] None None False) ex_shell = Execs d dmd t'"
    by (auto split: child_end.splits)
  from bg fg
    child_signal_dispositions[of "ex_request ''sleep'' [''5''] None None True" ex_shell ex_world]
    child_signal_dispositions[of "ex_request ''ls'' [] None None False" ex_shell ex_world]
  show ?thesis by (simp add: ex_request_def)
qed

lemma child_handler_fds: "fds (child_handler inp s) = fds s"
  by (simp add: child_handler_def ignore_sigint_def default_sigint_def Let_def)

text \<open>
  What one \<open>open\<close> followed by \<open>dup2\<close> onto a standard stream does to the descriptor
  table: the stream is bound to the file, and apart from it at most one descriptor, which
  was free, has changed.
\<close>

lemma open_dup2_fds:
  assumes o: "os_open w p fl md s = (r, s1)" and ok: "r \<noteq> - 1"
  shows "fds (dup2 r k s1) k = Some \<lparr> path = p, oflags = fl, creat_mode = md \<rparr>"
    and "\<exists>x. fds s x = None \<and> x < open_max w \<and> (\<forall>a. a \<noteq> x \<and> a \<noteq> k \<longrightarrow> fds (dup2 r k s1) a = fds s a)"
proof -
  from os_open_cases[OF o] ok obtain fd where
    fd: "r = int fd" "fd < open_max w" "fds s fd = None"
        "s1 = s \<lparr> fds := (fds s)(fd := Some \<lparr> path = p, oflags = fl, creat_mode = md \<rparr>) \<rparr>"
    by auto
  show "fds (dup2 r k s1) k = Some \<lparr> path = p, oflags = fl, creat_mode = md \<rparr>"
    using fd by (simp add: dup2_def)
  have "\<forall>a. a \<noteq> fd \<and> a \<noteq> k \<longrightarrow> fds (dup2 r k s1) a = fds s a"
    using fd by (simp add: dup2_def)
  with fd show "\<exists>x. fds s x = None \<and> x < open_max w \<and> (\<forall>a. a \<noteq> x \<and> a \<noteq> k \<longrightarrow> fds (dup2 r k s1) a = fds s a)"
    by blast
qed

lemma redirect_input_fds:
  assumes r: "redirect_input w inp s = Inr s2"
    and nul: "input_file inp = None \<Longrightarrow> is_background inp \<Longrightarrow>
                can_open w ''/dev/null'' [O_RDONLY] \<and> (\<exists>a. a < open_max w \<and> fds s a = None)"
  shows "fds s2 STDIN_FILENO =
           (case input_file inp of
              Some f \<Rightarrow> Some \<lparr> path = f, oflags = [O_RDONLY], creat_mode = None \<rparr>
            | None \<Rightarrow> if is_background inp
                      then Some \<lparr> path = ''/dev/null'', oflags = [O_RDONLY], creat_mode = None \<rparr>
                      else fds s STDIN_FILENO)"
    and "\<exists>x. fds s x = None \<and> (\<forall>a. a \<noteq> x \<and> a \<noteq> STDIN_FILENO \<longrightarrow> fds s2 a = fds s a) \<or> s2 = s"
proof -
  show "fds s2 STDIN_FILENO =
           (case input_file inp of
              Some f \<Rightarrow> Some \<lparr> path = f, oflags = [O_RDONLY], creat_mode = None \<rparr>
            | None \<Rightarrow> if is_background inp
                      then Some \<lparr> path = ''/dev/null'', oflags = [O_RDONLY], creat_mode = None \<rparr>
                      else fds s STDIN_FILENO)"
  proof (cases "input_file inp")
    case (Some f)
    obtain r' s1 where o: "os_open w f [O_RDONLY] None s = (r', s1)" by force
    with r Some have "r' \<noteq> - 1" "s2 = dup2 r' STDIN_FILENO s1"
      by (auto simp: redirect_input_def split: if_splits)
    with open_dup2_fds(1)[OF o] Some show ?thesis by simp
  next
    case None
    show ?thesis
    proof (cases "is_background inp")
      case True
      obtain r' s1 where o: "os_open w ''/dev/null'' [O_RDONLY] None s = (r', s1)" by force
      from nul[OF None True] os_open_succeeds[of w "''/dev/null''" "[O_RDONLY]" _ s None] o
      have ok: "r' \<noteq> - 1" by auto
      from r None True o have "s2 = dup2 r' STDIN_FILENO s1"
        by (auto simp: redirect_input_def)
      with open_dup2_fds(1)[OF o ok] None True show ?thesis by simp
    next
      case False
      with r None show ?thesis by (simp add: redirect_input_def)
    qed
  qed
next
  show "\<exists>x. fds s x = None \<and> (\<forall>a. a \<noteq> x \<and> a \<noteq> STDIN_FILENO \<longrightarrow> fds s2 a = fds s a) \<or> s2 = s"
  proof (cases "input_file inp")
    case (Some f)
    obtain r' s1 where o: "os_open w f [O_RDONLY] None s = (r', s1)" by force
    with r Some have "r' \<noteq> - 1" "s2 = dup2 r' STDIN_FILENO s1"
      by (auto simp: redirect_input_def split: if_splits)
    with open_dup2_fds(2)[OF o] show ?thesis by blast
  next
    case None
    show ?thesis
    proof (cases "is_background inp")
      case True
      obtain r' s1 where o: "os_open w ''/dev/null'' [O_RDONLY] None s = (r', s1)" by force
      from nul[OF None True] os_open_succeeds[of w "''/dev/null''" "[O_RDONLY]" _ s None] o
      have ok: "r' \<noteq> - 1" by auto
      from r None True o have "s2 = dup2 r' STDIN_FILENO s1"
        by (auto simp: redirect_input_def)
      with open_dup2_fds(2)[OF o ok] show ?thesis by blast
    next
      case False
      with r None show ?thesis by (simp add: redirect_input_def)
    qed
  qed
qed

lemma redirect_output_fds:
  assumes r: "redirect_output w inp s = Inr s2"
    and nul: "output_file inp = None \<Longrightarrow> is_background inp \<Longrightarrow>
                can_open w ''/dev/null'' [O_WRONLY] \<and> (\<exists>a. a < open_max w \<and> fds s a = None)"
  shows "fds s2 STDOUT_FILENO =
           (case output_file inp of
              Some f \<Rightarrow> Some \<lparr> path = f, oflags = [O_WRONLY, O_CREAT, O_TRUNC], creat_mode = Some mode_0600 \<rparr>
            | None \<Rightarrow> if is_background inp
                      then Some \<lparr> path = ''/dev/null'', oflags = [O_WRONLY], creat_mode = None \<rparr>
                      else fds s STDOUT_FILENO)"
    and "\<exists>x. fds s x = None \<and> (\<forall>a. a \<noteq> x \<and> a \<noteq> STDOUT_FILENO \<longrightarrow> fds s2 a = fds s a) \<or> s2 = s"
proof -
  show "fds s2 STDOUT_FILENO =
           (case output_file inp of
              Some f \<Rightarrow> Some \<lparr> path = f, oflags = [O_WRONLY, O_CREAT, O_TRUNC], creat_mode = Some mode_0600 \<rparr>
            | None \<Rightarrow> if is_background inp
                      then Some \<lparr> path = ''/dev/null'', oflags = [O_WRONLY], creat_mode = None \<rparr>
                      else fds s STDOUT_FILENO)"
  proof (cases "output_file inp")
    case (Some f)
    obtain r' s1 where o: "os_open w f [O_WRONLY, O_CREAT, O_TRUNC] (Some mode_0600) s = (r', s1)" by force
    with r Some have "r' \<noteq> - 1" "s2 = dup2 r' STDOUT_FILENO s1"
      by (auto simp: redirect_output_def split: if_splits)
    with open_dup2_fds(1)[OF o] Some show ?thesis by simp
  next
    case None
    show ?thesis
    proof (cases "is_background inp")
      case True
      obtain r' s1 where o: "os_open w ''/dev/null'' [O_WRONLY] None s = (r', s1)" by force
      from nul[OF None True] os_open_succeeds[of w "''/dev/null''" "[O_WRONLY]" _ s None] o
      have ok: "r' \<noteq> - 1" by auto
      from r None True o have "s2 = dup2 r' STDOUT_FILENO s1"
        by (auto simp: redirect_output_def)
      with open_dup2_fds(1)[OF o ok] None True show ?thesis by simp
    next
      case False
      with r None show ?thesis by (simp add: redirect_output_def)
    qed
  qed
next
  show "\<exists>x. fds s x = None \<and> (\<forall>a. a \<noteq> x \<and> a \<noteq> STDOUT_FILENO \<longrightarrow> fds s2 a = fds s a) \<or> s2 = s"
  proof (cases "output_file inp")
    case (Some f)
    obtain r' s1 where o: "os_open w f [O_WRONLY, O_CREAT, O_TRUNC] (Some mode_0600) s = (r', s1)" by force
    with r Some have "r' \<noteq> - 1" "s2 = dup2 r' STDOUT_FILENO s1"
      by (auto simp: redirect_output_def split: if_splits)
    with open_dup2_fds(2)[OF o] show ?thesis by blast
  next
    case None
    show ?thesis
    proof (cases "is_background inp")
      case True
      obtain r' s1 where o: "os_open w ''/dev/null'' [O_WRONLY] None s = (r', s1)" by force
      from nul[OF None True] os_open_succeeds[of w "''/dev/null''" "[O_WRONLY]" _ s None] o
      have ok: "r' \<noteq> - 1" by auto
      from r None True o have "s2 = dup2 r' STDOUT_FILENO s1"
        by (auto simp: redirect_output_def)
      with open_dup2_fds(2)[OF o ok] show ?thesis by blast
    next
      case False
      with r None show ?thesis by (simp add: redirect_output_def)
    qed
  qed
qed

lemma child_open_failure:
  assumes "command inp = Some c"
    and "(\<exists>f. input_file inp = Some f \<and> \<not> can_open w f [O_RDONLY]) \<or>
         (\<exists>f. output_file inp = Some f \<and> \<not> can_open w f [O_WRONLY, O_CREAT, O_TRUNC])"
  shows "\<exists>t. execute_child w inp s = Exits 1 t"
  using assms
  by (auto simp: execute_child_def redirect_input_def redirect_output_def os_open_def
      exit_in_err_child_def Let_def split: option.splits sum.splits prod.splits)

text \<open>
  The standard streams of a child that reaches \<open>execvp\<close>, stream by stream, when every
  \<open>open\<close> it makes succeeds: with an explicit path the stream is bound to that file,
  opened read-only for input and write-only with create and truncate and mode 0600 for
  output; without a path a background request has the stream on \<open>/dev/null\<close> and a
  foreground request has it as the interpreter has it.
\<close>

lemma child_redirection:
  assumes ex: "execute_child w inp s = Execs c cmd s'"
    and std: "fds s STDIN_FILENO \<noteq> None" "fds s STDOUT_FILENO \<noteq> None"
    and nul: "is_background inp \<Longrightarrow>
                can_open w ''/dev/null'' [O_RDONLY] \<and> can_open w ''/dev/null'' [O_WRONLY] \<and>
                (\<exists>a b. a \<noteq> b \<and> a < open_max w \<and> b < open_max w \<and> fds s a = None \<and> fds s b = None)"
  shows "fds s' STDIN_FILENO =
           (case input_file inp of
              Some f \<Rightarrow> Some \<lparr> path = f, oflags = [O_RDONLY], creat_mode = None \<rparr>
            | None \<Rightarrow> if is_background inp
                      then Some \<lparr> path = ''/dev/null'', oflags = [O_RDONLY], creat_mode = None \<rparr>
                      else fds s STDIN_FILENO) \<and>
         fds s' STDOUT_FILENO =
           (case output_file inp of
              Some f \<Rightarrow> Some \<lparr> path = f, oflags = [O_WRONLY, O_CREAT, O_TRUNC], creat_mode = Some mode_0600 \<rparr>
            | None \<Rightarrow> if is_background inp
                      then Some \<lparr> path = ''/dev/null'', oflags = [O_WRONLY], creat_mode = None \<rparr>
                      else fds s STDOUT_FILENO)"
proof -
  let ?s1 = "child_handler inp s"
  have f1: "fds ?s1 = fds s" by (rule child_handler_fds)
  from execute_child_Execs[OF ex] obtain s2 where
    ri: "redirect_input w inp ?s1 = Inr s2" and ro: "redirect_output w inp s2 = Inr s'"
    by blast
  have n1: "input_file inp = None \<Longrightarrow> is_background inp \<Longrightarrow>
              can_open w ''/dev/null'' [O_RDONLY] \<and> (\<exists>a. a < open_max w \<and> fds ?s1 a = None)"
    using nul f1 by auto
  note in0 = redirect_input_fds(1)[OF ri n1]
  from redirect_input_fds(2)[OF ri n1]
  have frame1: "\<exists>x. fds s x = None \<and> (\<forall>a. a \<noteq> x \<and> a \<noteq> STDIN_FILENO \<longrightarrow> fds s2 a = fds s a)
                  \<or> fds s2 = fds s"
    using f1 by auto
  have out_keep: "fds s2 STDOUT_FILENO = fds s STDOUT_FILENO"
  proof -
    { fix x assume x: "fds s x = None"
        "\<forall>a. a \<noteq> x \<and> a \<noteq> STDIN_FILENO \<longrightarrow> fds s2 a = fds s a"
      from x(1) std(2) have "STDOUT_FILENO \<noteq> x" by auto
      moreover have "STDOUT_FILENO \<noteq> STDIN_FILENO" by (simp add: STDIN_FILENO_def STDOUT_FILENO_def)
      ultimately have ?thesis using x(2) by blast }
    with frame1 show ?thesis by auto
  qed
  have in_open: "fds s2 STDIN_FILENO \<noteq> None"
    using in0 std f1 by (auto split: option.splits)
  have n2: "output_file inp = None \<Longrightarrow> is_background inp \<Longrightarrow>
              can_open w ''/dev/null'' [O_WRONLY] \<and> (\<exists>a. a < open_max w \<and> fds s2 a = None)"
  proof -
    assume "is_background inp"
    from nul[OF this] obtain a b where
      ab: "a \<noteq> b" "a < open_max w" "b < open_max w" "fds s a = None" "fds s b = None"
      and cw: "can_open w ''/dev/null'' [O_WRONLY]" by blast
    from ab std have "a \<noteq> STDIN_FILENO" "b \<noteq> STDIN_FILENO" by auto
    with frame1 ab have "fds s2 a = None \<or> fds s2 b = None" by metis
    with ab cw show ?thesis by blast
  qed
  note out1 = redirect_output_fds(1)[OF ro n2]
  have "fds s' STDIN_FILENO = fds s2 STDIN_FILENO"
  proof -
    { fix x assume x: "fds s2 x = None"
        "\<forall>a. a \<noteq> x \<and> a \<noteq> STDOUT_FILENO \<longrightarrow> fds s' a = fds s2 a"
      from x(1) in_open have "STDIN_FILENO \<noteq> x" by auto
      moreover have "STDIN_FILENO \<noteq> STDOUT_FILENO" by (simp add: STDIN_FILENO_def STDOUT_FILENO_def)
      ultimately have ?thesis using x(2) by blast }
    with redirect_output_fds(2)[OF ro n2] show ?thesis by auto
  qed
  with in0 out1 out_keep f1 show ?thesis by (simp split: option.splits)
qed

lemma child_redirection_example:
  "(case execute_child ex_world (ex_request ''wc'' [] (Some ''in.txt'') None True) ex_shell of
      Execs c cmd s' \<Rightarrow>
        fds s' STDIN_FILENO = Some \<lparr> path = ''in.txt'', oflags = [O_RDONLY], creat_mode = None \<rparr> \<and>
        fds s' STDOUT_FILENO = Some \<lparr> path = ''/dev/null'', oflags = [O_WRONLY], creat_mode = None \<rparr>
    | Exits n s' \<Rightarrow> False | Child_crashes \<Rightarrow> False) \<and>
   (case execute_child ex_world (ex_request ''ls'' [] None (Some ''out.txt'') False) ex_shell of
      Execs c cmd s' \<Rightarrow>
        fds s' STDIN_FILENO = Some ex_tty \<and>
        fds s' STDOUT_FILENO =
          Some \<lparr> path = ''out.txt'', oflags = [O_WRONLY, O_CREAT, O_TRUNC], creat_mode = Some mode_0600 \<rparr>
    | Exits n s' \<Rightarrow> False | Child_crashes \<Rightarrow> False)"
proof -
  let ?A = "ex_request ''wc'' [] (Some ''in.txt'') None True"
  let ?B = "ex_request ''ls'' [] None (Some ''out.txt'') False"
  have tty: "fds ex_shell STDIN_FILENO = Some ex_tty" "fds ex_shell STDOUT_FILENO = Some ex_tty"
    by (simp_all add: ex_shell_def STDIN_FILENO_def STDOUT_FILENO_def)
  then have std: "fds ex_shell STDIN_FILENO \<noteq> None" "fds ex_shell STDOUT_FILENO \<noteq> None"
    by simp_all
  have free: "\<exists>a b. a \<noteq> b \<and> a < open_max ex_world \<and> b < open_max ex_world \<and>
                    fds ex_shell a = None \<and> fds ex_shell b = None"
    by (rule exI[of _ 3], rule exI[of _ 4]) (simp add: ex_world_def ex_shell_def)
  have nul: "can_open ex_world ''/dev/null'' [O_RDONLY] \<and> can_open ex_world ''/dev/null'' [O_WRONLY] \<and>
             (\<exists>a b. a \<noteq> b \<and> a < open_max ex_world \<and> b < open_max ex_world \<and>
                    fds ex_shell a = None \<and> fds ex_shell b = None)"
    using free by (simp add: ex_world_def)
  have "case execute_child ex_world ?A ex_shell of
          Execs c cmd s' \<Rightarrow> True | Exits n s' \<Rightarrow> False | Child_crashes \<Rightarrow> False"
    by code_simp
  then obtain c cmd s' where a: "execute_child ex_world ?A ex_shell = Execs c cmd s'"
    by (auto split: child_end.splits)
  have "case execute_child ex_world ?B ex_shell of
          Execs c cmd s' \<Rightarrow> True | Exits n s' \<Rightarrow> False | Child_crashes \<Rightarrow> False"
    by code_simp
  then obtain d dmd t' where b: "execute_child ex_world ?B ex_shell = Execs d dmd t'"
    by (auto split: child_end.splits)
  have bf: "\<not> is_background ?B" by (simp add: ex_request_def)
  have ra: "fds s' STDIN_FILENO = Some \<lparr> path = ''in.txt'', oflags = [O_RDONLY], creat_mode = None \<rparr> \<and>
        fds s' STDOUT_FILENO = Some \<lparr> path = ''/dev/null'', oflags = [O_WRONLY], creat_mode = None \<rparr>"
    using child_redirection[OF a std nul] by (simp add: ex_request_def)
  have rb: "fds t' STDIN_FILENO = Some ex_tty \<and>
        fds t' STDOUT_FILENO =
          Some \<lparr> path = ''out.txt'', oflags = [O_WRONLY, O_CREAT, O_TRUNC], creat_mode = Some mode_0600 \<rparr>"
    using child_redirection[OF b std] bf tty by (simp add: ex_request_def)
  from ra rb show ?thesis by (simp add: a b)
qed

text \<open>
  C1. A background request without redirection in a process whose three standard
  descriptors are open and which may hold no more, or on a system whose null device
  cannot be opened: \<open>open("/dev/null")\<close> returns \<open>-1\<close>, the result is not tested, \<open>dup2\<close>
  changes nothing, and the child replaces its image with both streams still on the
  interpreter's terminal.
\<close>

theorem background_streams_left_on_terminal:
  "is_background (ex_request ''sleep'' [''5''] None None True) = True \<and>
   input_file (ex_request ''sleep'' [''5''] None None True) = None \<and>
   output_file (ex_request ''sleep'' [''5''] None None True) = None \<and>
   fds ex_shell STDIN_FILENO = Some ex_tty \<and> fds ex_shell STDOUT_FILENO = Some ex_tty \<and>
   (case execute_child ex_world_no_fd (ex_request ''sleep'' [''5''] None None True) ex_shell of
      Execs c cmd s' \<Rightarrow>
        c = ''sleep'' \<and> cmd = [''sleep'', ''5''] \<and>
        fds s' STDIN_FILENO = Some ex_tty \<and> fds s' STDOUT_FILENO = Some ex_tty
    | Exits n s' \<Rightarrow> False
    | Child_crashes \<Rightarrow> False) \<and>
   (case execute_child ex_world_no_null (ex_request ''sleep'' [''5''] None None True) ex_shell of
      Execs c cmd s' \<Rightarrow>
        c = ''sleep'' \<and> cmd = [''sleep'', ''5''] \<and>
        fds s' STDIN_FILENO = Some ex_tty \<and> fds s' STDOUT_FILENO = Some ex_tty
    | Exits n s' \<Rightarrow> False
    | Child_crashes \<Rightarrow> False)"
  by code_simp

subsection \<open>The interpreter's side of \<open>execute_smallsh\<close>\<close>

lemma wstatus_Exited:
  "n < 256 \<Longrightarrow> WIFEXITED (wstatus (Exited n)) \<and> \<not> WIFSIGNALED (wstatus (Exited n)) \<and>
     WEXITSTATUS (wstatus (Exited n)) = int n"
  by (simp add: WIFEXITED_def WIFSIGNALED_def WTERMSIG_def WEXITSTATUS_def Let_def)

lemma wstatus_Signaled:
  assumes "0 < sg" "sg \<le> 64"
  shows "WIFSIGNALED (wstatus (Signaled sg core)) \<and> \<not> WIFEXITED (wstatus (Signaled sg core)) \<and>
     WTERMSIG (wstatus (Signaled sg core)) = int sg"
proof -
  have m: "sg mod 128 = sg" using assms by simp
  have t: "(int sg + (if core then 128 else 0)) mod 128 = int sg"
    using assms by (cases core) (simp_all add: mod_add_right_eq)
  show ?thesis using assms by (simp add: WIFEXITED_def WIFSIGNALED_def WTERMSIG_def Let_def m t)
qed

lemma fork_failure:
  "execute_smallsh w (- 1) inp s = Some (Inr (1, s))"
  by (simp add: execute_smallsh_def)

text \<open>
  C8. \<open>fork\<close> fails for an external command: no process, no list cell and no output are
  made and the loop goes on, but what \<open>main\<close> stores as the last status is the bare 1.
  The wait macros read it as an ending by signal 1, and the next \<open>status\<close> prints
  \<open>terminated by signal 1\<close>. A child that fails in its own set-up calls \<open>exit(1)\<close>, which
  is stored as 256 and printed as \<open>exit value 1\<close>.
\<close>

theorem fork_failure_reads_as_signal:
  "dispatch ex_world (- 1) (ex_request ''ls'' [] None None False) ex_shell
     = Some (Inr (ex_shell \<lparr> exit_code := 1 \<rparr>)) \<and>
   WIFSIGNALED 1 \<and> \<not> WIFEXITED 1 \<and> WTERMSIG 1 = 1 \<and>
   out (status_smallsh 1 ex_shell) = [''terminated by signal 1'' @ nl] \<and>
   wstatus (Exited 1) = 256 \<and>
   out (status_smallsh 256 ex_shell) = [''exit value 1'' @ nl] \<and>
   (case smallsh_main ex_world [ex_event ''ls'' (- 1) [], ex_event ''status'' 0 []] ex_shell of
      Some (Inr (c, s)) \<Rightarrow>
        out s = ['': '', '': '', ''terminated by signal 1'' @ nl, '': ''] \<and>
        procs s 0 = None \<and> pid_head s = 0
    | Some (Inl a) \<Rightarrow> False
    | None \<Rightarrow> False)"
proof -
  have d: "dispatch ex_world (- 1) (ex_request ''ls'' [] None None False) ex_shell
             = Some (Inr (ex_shell \<lparr> exit_code := 1 \<rparr>))"
    by (simp add: dispatch_def fork_failure ex_request_def ex_shell_def)
  have m: "WIFSIGNALED 1 \<and> \<not> WIFEXITED 1 \<and> WTERMSIG 1 = 1 \<and> wstatus (Exited 1) = 256"
    by (simp add: WIFSIGNALED_def WIFEXITED_def WTERMSIG_def Let_def)
  have o: "out (status_smallsh 1 ex_shell) = [''terminated by signal 1'' @ nl] \<and>
           out (status_smallsh 256 ex_shell) = [''exit value 1'' @ nl]"
    by code_simp
  have r: "case smallsh_main ex_world [ex_event ''ls'' (- 1) [], ex_event ''status'' 0 []] ex_shell of
      Some (Inr (c, s)) \<Rightarrow>
        out s = ['': '', '': '', ''terminated by signal 1'' @ nl, '': ''] \<and>
        procs s 0 = None \<and> pid_head s = 0
    | Some (Inl a) \<Rightarrow> False
    | None \<Rightarrow> False"
    by code_simp
  from d m o r show ?thesis by (intro conjI) simp_all
qed

lemma waitpid_block_running:
  "procs s p = Some (Running (Some e)) \<Longrightarrow>
     waitpid_block p s =
       Some (p, Some (wstatus e), s \<lparr> trace := trace s @ [Waitpid p False], procs := (procs s)(p := None) \<rparr>)"
  by (simp add: waitpid_block_def reap_def Let_def)

lemma waitpid_block_forever:
  "procs s p = Some (Running None) \<Longrightarrow> waitpid_block p s = None"
  by (simp add: waitpid_block_def Let_def)

lemma execute_foreground:
  assumes fg: "\<not> is_background inp" and pid: "fork_pid \<noteq> 0" "fork_pid \<noteq> - 1"
  shows "execute_smallsh w fork_pid inp s =
     (case child_ending w inp s fork_pid of
        None \<Rightarrow> None
      | Some e \<Rightarrow>
          Some (Inr (wstatus e,
            (if WIFSIGNALED (wstatus e)
             then printf (''terminated by signal '' @ show_int (WTERMSIG (wstatus e)) @ nl)
             else id)
              (parent_handler s \<lparr> trace := trace s @ [Waitpid fork_pid False],
                                   procs := (procs s)(fork_pid := None) \<rparr>))))"
proof (cases "child_ending w inp s fork_pid")
  case None
  then show ?thesis using fg pid
    by (simp add: execute_smallsh_def Let_def waitpid_block_def parent_handler_def ignore_sigint_def)
next
  case (Some e)
  then show ?thesis using fg pid
    by (simp add: execute_smallsh_def Let_def waitpid_block_def reap_def parent_handler_def
        ignore_sigint_def)
qed

lemma dispatch_external:
  assumes "program_status s = True" "command inp = Some c" "c \<noteq> ''cd''" "c \<noteq> ''status''"
  shows "dispatch w fork_pid inp s =
     (case execute_smallsh w fork_pid inp s of
        None \<Rightarrow> None
      | Some (Inl a) \<Rightarrow> Some (Inl a)
      | Some (Inr (r, s1)) \<Rightarrow> Some (Inr (s1 \<lparr> exit_code := r \<rparr>)))"
  using assms by (simp add: dispatch_def)

text \<open>
  C4. A foreground request for an external command whose \<open>fork\<close> succeeded: the
  interpreter makes one blocking \<open>waitpid\<close> on that child and does not return while the
  child runs; when the child has ended, \<open>exit_code\<close> in \<open>main\<close> holds its wait status,
  which reads as an exit with its code or as a signal with its number, and
  \<open>terminated by signal n\<close> is printed exactly when it was a signal.
\<close>

theorem foreground_completion:
  assumes run: "program_status s = True"
    and cmd: "command inp = Some c" "c \<noteq> ''cd''" "c \<noteq> ''status''"
    and fg: "\<not> is_background inp" and pid: "0 < fork_pid"
  shows "case child_ending w inp s fork_pid of
           None \<Rightarrow> dispatch w fork_pid inp s = None
         | Some e \<Rightarrow> valid_ending e \<longrightarrow>
             (\<exists>s'. dispatch w fork_pid inp s = Some (Inr s') \<and>
                   exit_code s' = wstatus e \<and>
                   trace s' = trace s @ [Waitpid fork_pid False] \<and>
                   procs s' = (procs s)(fork_pid := None) \<and>
                   (case e of
                      Exited n \<Rightarrow>
                        out s' = out s \<and> WIFEXITED (exit_code s') \<and> \<not> WIFSIGNALED (exit_code s') \<and>
                        WEXITSTATUS (exit_code s') = int n
                    | Signaled sg core \<Rightarrow>
                        out s' = out s @ [''terminated by signal '' @ show_int (int sg) @ nl] \<and>
                        WIFSIGNALED (exit_code s') \<and> \<not> WIFEXITED (exit_code s') \<and>
                        WTERMSIG (exit_code s') = int sg))"
proof (cases "child_ending w inp s fork_pid")
  case None
  then show ?thesis
    using pid by (simp add: dispatch_external[OF run cmd] execute_foreground[OF fg])
next
  case (Some e)
  have d: "dispatch w fork_pid inp s =
      Some (Inr ((if WIFSIGNALED (wstatus e)
             then printf (''terminated by signal '' @ show_int (WTERMSIG (wstatus e)) @ nl)
             else id)
              (parent_handler s \<lparr> trace := trace s @ [Waitpid fork_pid False],
                                   procs := (procs s)(fork_pid := None) \<rparr>) \<lparr> exit_code := wstatus e \<rparr>))"
    using pid Some by (simp add: dispatch_external[OF run cmd] execute_foreground[OF fg])
  show ?thesis
  proof (cases e)
    case (Exited n)
    show ?thesis
      using wstatus_Exited[of n] Some Exited
      by (simp add: d parent_handler_def ignore_sigint_def del: wstatus.simps)
  next
    case (Signaled sg core)
    show ?thesis
      using wstatus_Signaled[of sg core] Some Signaled
      by (simp add: d parent_handler_def ignore_sigint_def printf_def del: wstatus.simps)
  qed
qed

lemma redirect_loop_is_background:
  "redirect_loop tokens js inp = Inr inp' \<Longrightarrow> is_background inp' = is_background inp"
  by (induction js arbitrary: inp) (auto simp: Let_def split: if_splits)

lemma parse_input_foreground_mode:
  assumes "foreground_mode s = True" "parse_input w s input inp0 = Inr (st, inp)"
  shows "is_background inp = is_background inp0"
  using assms
  by (auto simp: parse_input_def Let_def split: sum.splits if_splits
      dest!: redirect_loop_is_background)

text \<open>
  C3. A line parsed while \<open>foreground_mode\<close> is set gives a request with the background
  flag off, whatever its last token is; executing it, the interpreter makes the blocking
  \<open>waitpid\<close> on the child, does not return while the child runs, and leaves the list of
  background pids and its cells as they were.
\<close>

theorem foreground_only_mode:
  assumes mode: "foreground_mode s = True"
    and parsed: "parse_input w s input init_input = Inr (st, inp)"
    and pid: "0 < fork_pid"
  shows "is_background inp = False \<and>
     (case child_ending w inp s fork_pid of
        None \<Rightarrow> execute_smallsh w fork_pid inp s = None
      | Some e \<Rightarrow>
          (\<exists>r s'. execute_smallsh w fork_pid inp s = Some (Inr (r, s')) \<and>
                  pid_head s' = pid_head s \<and> heap s' = heap s \<and> brk s' = brk s \<and>
                  trace s' = trace s @ [Waitpid fork_pid False] \<and>
                  procs s' = (procs s)(fork_pid := None)))"
proof -
  have fg: "\<not> is_background inp"
    using parse_input_foreground_mode[OF mode parsed] by (simp add: init_input_def)
  show ?thesis
    using fg pid
    by (auto simp: execute_foreground[OF fg] parent_handler_def ignore_sigint_def printf_def
        split: option.splits)
qed

theorem foreground_completion_witness:
  "(case dispatch ex_world 8 (ex_request ''sleep'' [''100''] None None False) ex_shell of
      Some (Inr s') \<Rightarrow>
        exit_code s' = 2 \<and> out s' = [''terminated by signal 2'' @ nl] \<and>
        WIFSIGNALED (exit_code s') \<and> WTERMSIG (exit_code s') = 2 \<and>
        trace s' = [Waitpid 8 False]
    | Some (Inl a) \<Rightarrow> False | None \<Rightarrow> False) \<and>
   (case dispatch ex_world 7 (ex_request ''ls'' [] None None False) ex_shell of
      Some (Inr s') \<Rightarrow>
        exit_code s' = 768 \<and> out s' = [] \<and> WIFEXITED (exit_code s') \<and> WEXITSTATUS (exit_code s') = 3
    | Some (Inl a) \<Rightarrow> False | None \<Rightarrow> False) \<and>
   dispatch ex_world 9 (ex_request ''cat'' [] None None False) ex_shell = None"
proof -
  let ?A = "ex_request ''sleep'' [''100''] None None False"
  let ?B = "ex_request ''ls'' [] None None False"
  let ?C = "ex_request ''cat'' [] None None False"
  have run: "program_status ex_shell = True" by (simp add: ex_shell_def)
  have tr: "trace ex_shell = []" "out ex_shell = []" by (simp_all add: ex_shell_def)
  have ea: "child_ending ex_world ?A ex_shell 8 = Some (Signaled 2 False)" by code_simp
  have eb: "child_ending ex_world ?B ex_shell 7 = Some (Exited 3)" by code_simp
  have ec: "child_ending ex_world ?C ex_shell 9 = None" by code_simp
  have sh: "show_int 2 = ''2''" by code_simp
  from foreground_completion[OF run, of ?A "''sleep''" 8 ex_world] ea
  obtain s' where a: "dispatch ex_world 8 ?A ex_shell = Some (Inr s')"
      "exit_code s' = 2" "trace s' = [Waitpid 8 False]"
      "out s' = [''terminated by signal 2'' @ nl]" "WIFSIGNALED (exit_code s')"
      "WTERMSIG (exit_code s') = 2"
    by (auto simp: ex_request_def tr sh)
  from foreground_completion[OF run, of ?B "''ls''" 7 ex_world] eb
  obtain t' where b: "dispatch ex_world 7 ?B ex_shell = Some (Inr t')"
      "exit_code t' = 768" "out t' = []" "WIFEXITED (exit_code t')" "WEXITSTATUS (exit_code t') = 3"
    by (auto simp: ex_request_def tr)
  from foreground_completion[OF run, of ?C "''cat''" 9 ex_world] ec
  have c: "dispatch ex_world 9 ?C ex_shell = None"
    by (simp add: ex_request_def)
  from a b c show ?thesis by simp
qed

theorem foreground_only_mode_witness:
  "(case parse_input ex_world (ex_shell \<lparr> foreground_mode := True \<rparr>) ''sleep 5 &'' init_input of
      Inr (st, inp) \<Rightarrow>
        st = True \<and> command inp = Some ''sleep'' \<and> is_background inp = False \<and>
        (case execute_smallsh ex_world 7 inp (ex_shell \<lparr> foreground_mode := True \<rparr>) of
           Some (Inr (r, s')) \<Rightarrow> pid_head s' = 0 \<and> trace s' = [Waitpid 7 False] \<and> procs s' 7 = None
         | Some (Inl a) \<Rightarrow> False | None \<Rightarrow> False) \<and>
        execute_smallsh ex_world 9 inp (ex_shell \<lparr> foreground_mode := True \<rparr>) = None
    | Inl a \<Rightarrow> False)"
proof -
  let ?s = "ex_shell \<lparr> foreground_mode := True \<rparr>"
  let ?inp = "ex_request ''sleep'' [''5''] None None False"
  have "case parse_input ex_world ?s ''sleep 5 &'' init_input of
          Inr (st, inp) \<Rightarrow> st = True \<and> inp = ?inp | Inl a \<Rightarrow> False"
    by code_simp
  then have p: "parse_input ex_world ?s ''sleep 5 &'' init_input = Inr (True, ?inp)"
    by (auto split: sum.splits)
  have m: "foreground_mode ?s = True" by simp
  have st: "pid_head ?s = 0" "trace ?s = []" by (simp_all add: ex_shell_def)
  have e7: "child_ending ex_world ?inp ?s 7 = Some (Exited 3)" by code_simp
  have e9: "child_ending ex_world ?inp ?s 9 = None" by code_simp
  from foreground_only_mode[OF m p, of 7] e7
  obtain r s' where a: "execute_smallsh ex_world 7 ?inp ?s = Some (Inr (r, s'))"
     "pid_head s' = 0" "trace s' = [Waitpid 7 False]" "procs s' 7 = None" "is_background ?inp = False"
    by (auto simp: st)
  from foreground_only_mode[OF m p, of 9] e9
  have b: "execute_smallsh ex_world 9 ?inp ?s = None" by simp
  from a b show ?thesis by (simp add: p) (simp add: ex_request_def)
qed

subsection \<open>The built-ins and \<open>exit_code\<close>\<close>

lemma load_exit_code: "load a s = Inr (n, s1) \<Longrightarrow> exit_code s1 = exit_code s"
  by (auto simp: load_def split: if_splits cell.splits)

lemma waitpid_block_exit_code:
  "waitpid_block p s = Some (r, st, s1) \<Longrightarrow> exit_code s1 = exit_code s"
  by (auto simp: waitpid_block_def reap_def Let_def split: option.splits pstate.splits)

lemma os_kill_exit_code: "exit_code (os_kill p sg s) = exit_code s"
  by (simp add: os_kill_def Let_def split: option.splits pstate.splits)

lemma exit_loop_exit_code:
  assumes "exit_loop temp s = Some r"
  shows "\<forall>s'. r = Inr s' \<longrightarrow> exit_code s' = exit_code s"
  using assms
proof (induction rule: exit_loop.raw_induct[rotated 1, consumes 1, case_names step])
  case (step loop temp s r)
  show ?case
  proof (cases "temp = 0")
    case True
    with step(2) show ?thesis by auto
  next
    case False
    show ?thesis
    proof (intro allI impI)
      fix s' assume r: "r = Inr s'"
      from step(2) False r obtain n s1 where l1: "load temp s = Inr (n, s1)"
        by (auto split: sum.splits)
      with step(2) False r obtain q st s2 where
        w: "waitpid_block (data n) (os_kill (data n) SIGKILL s1) = Some (q, st, s2)"
        by (auto split: option.splits)
      with step(2) False r l1 obtain n' s3 where l2: "load temp s2 = Inr (n', s3)"
        and rec: "loop (next n') s3 = Some (Inr s')"
        by (auto split: sum.splits)
      from step(1)[OF rec] have "exit_code s' = exit_code s3" by simp
      also have "\<dots> = exit_code s2" by (rule load_exit_code[OF l2])
      also have "\<dots> = exit_code (os_kill (data n) SIGKILL s1)" by (rule waitpid_block_exit_code[OF w])
      also have "\<dots> = exit_code s" by (simp add: os_kill_exit_code load_exit_code[OF l1])
      finally show "exit_code s' = exit_code s" .
    qed
  qed
qed

lemma status_smallsh_exit_code: "exit_code (status_smallsh ec s) = exit_code s"
  by (simp add: status_smallsh_def printf_def)

lemma cd_smallsh_result:
  "cd_smallsh w p s = (r, s1) \<Longrightarrow>
     exit_code s1 = exit_code s \<and>
     (case (case p of Some d \<Rightarrow> Some d | None \<Rightarrow> home w) of
        None \<Rightarrow> r = - 1 \<and> cwd s1 = cwd s
      | Some d \<Rightarrow> (case chdir_to w (cwd s) d of
                     None \<Rightarrow> r = - 1 \<and> cwd s1 = cwd s
                   | Some c \<Rightarrow> r = 0 \<and> cwd s1 = c))"
  by (auto simp: cd_smallsh_def os_chdir_def split: option.splits)

text \<open>
  C5 as the claim has it fails: \<open>cd\<close> is a built-in and \<open>main\<close> assigns its result to
  \<open>exit_code\<close>. A \<open>cd\<close> to a directory that does not exist turns an \<open>exit_code\<close> of 0
  into \<open>-1\<close>.
\<close>

theorem cd_changes_last_status:
  "command (ex_request ''cd'' [''/nonexistent''] None None False) = Some ''cd'' \<and>
   dispatch ex_world 0 (ex_request ''cd'' [''/nonexistent''] None None False) ex_shell
     = Some (Inr (ex_shell \<lparr> exit_code := - 1 \<rparr>)) \<and>
   exit_code (ex_shell \<lparr> exit_code := - 1 \<rparr>) \<noteq> exit_code ex_shell"
  by (simp add: dispatch_def ex_request_def ex_shell_def ex_world_def cd_smallsh_def os_chdir_def)

text \<open>
  C5, amended. \<open>status\<close> and the \<open>exit\<close> request (which reaches the dispatch as
  \<open>program_status = FALSE\<close>) leave \<open>exit_code\<close> as it was; \<open>cd\<close> sets it to what \<open>chdir\<close>
  returned, 0 or \<open>-1\<close>; a foreground external command sets it to the wait status of its
  child.
\<close>

theorem last_status_updates:
  "(program_status s = True \<and> command inp = Some ''status'' \<longrightarrow>
      (\<exists>s'. dispatch w f inp s = Some (Inr s') \<and> exit_code s' = exit_code s)) \<and>
   (program_status s = False \<longrightarrow>
      (\<forall>s'. dispatch w f inp s = Some (Inr s') \<longrightarrow> exit_code s' = exit_code s)) \<and>
   (program_status s = True \<and> command inp = Some ''cd'' \<and> args inp \<noteq> Some [] \<longrightarrow>
      (\<exists>s'. dispatch w f inp s = Some (Inr s') \<and>
            exit_code s' =
              (case (case args inp of Some as \<Rightarrow> Some (hd as) | None \<Rightarrow> home w) of
                 None \<Rightarrow> - 1
               | Some d \<Rightarrow> (case chdir_to w (cwd s) d of None \<Rightarrow> - 1 | Some c \<Rightarrow> 0)))) \<and>
   (program_status s = True \<and> command inp = Some c \<and> c \<noteq> ''cd'' \<and> c \<noteq> ''status'' \<and>
    \<not> is_background inp \<and> 0 < f \<longrightarrow>
      (\<forall>e. child_ending w inp s f = Some e \<longrightarrow>
         (\<exists>s'. dispatch w f inp s = Some (Inr s') \<and> exit_code s' = wstatus e)))"
proof (intro conjI impI allI)
  assume "program_status s = True \<and> command inp = Some ''status''"
  then show "\<exists>s'. dispatch w f inp s = Some (Inr s') \<and> exit_code s' = exit_code s"
    by (simp add: dispatch_def status_smallsh_exit_code)
next
  fix s' assume "program_status s = False" "dispatch w f inp s = Some (Inr s')"
  then have "pid_head s \<noteq> 0 \<longrightarrow> exit_loop (pid_head s) s = Some (Inr s')"
    and "pid_head s = 0 \<longrightarrow> s' = s"
    by (auto simp: dispatch_def exit_smallsh_def split: if_splits)
  then show "exit_code s' = exit_code s"
    using exit_loop_exit_code[of "pid_head s" s "Inr s'"] by (cases "pid_head s = 0") auto
next
  assume a: "program_status s = True \<and> command inp = Some ''cd'' \<and> args inp \<noteq> Some []"
  show "\<exists>s'. dispatch w f inp s = Some (Inr s') \<and>
            exit_code s' =
              (case (case args inp of Some as \<Rightarrow> Some (hd as) | None \<Rightarrow> home w) of
                 None \<Rightarrow> - 1
               | Some d \<Rightarrow> (case chdir_to w (cwd s) d of None \<Rightarrow> - 1 | Some c \<Rightarrow> 0))"
  proof (cases "args inp")
    case None
    obtain r s1 where c: "cd_smallsh w None s = (r, s1)" by force
    from cd_smallsh_result[OF c] a None c show ?thesis
      by (auto simp: dispatch_def split: option.splits)
  next
    case (Some as)
    with a obtain x xs where as: "as = x # xs" by (cases as) auto
    obtain r s1 where c: "cd_smallsh w (Some x) s = (r, s1)" by force
    from cd_smallsh_result[OF c] a Some as c show ?thesis
      by (auto simp: dispatch_def split: option.splits)
  qed
next
  fix e
  assume a: "program_status s = True \<and> command inp = Some c \<and> c \<noteq> ''cd'' \<and> c \<noteq> ''status'' \<and>
    \<not> is_background inp \<and> 0 < f" and e: "child_ending w inp s f = Some e"
  from a have "dispatch w f inp s =
     (case execute_smallsh w f inp s of
        None \<Rightarrow> None
      | Some (Inl a) \<Rightarrow> Some (Inl a)
      | Some (Inr (r, s1)) \<Rightarrow> Some (Inr (s1 \<lparr> exit_code := r \<rparr>)))"
    by (intro dispatch_external) auto
  moreover from a have "\<not> is_background inp" "f \<noteq> 0" "f \<noteq> - 1" by auto
  ultimately show "\<exists>s'. dispatch w f inp s = Some (Inr s') \<and> exit_code s' = wstatus e"
    using e by (simp add: execute_foreground)
qed

theorem last_status_updates_witness:
  "(case dispatch ex_world 0 (ex_request ''status'' [] None None False) (ex_shell \<lparr> exit_code := 768 \<rparr>) of
      Some (Inr s') \<Rightarrow> exit_code s' = 768 | Some (Inl a) \<Rightarrow> False | None \<Rightarrow> False) \<and>
   (case dispatch ex_world 0 (ex_request ''exit'' [] None None False)
           (ex_shell \<lparr> exit_code := 768, program_status := False \<rparr>) of
      Some (Inr s') \<Rightarrow> exit_code s' = 768 | Some (Inl a) \<Rightarrow> False | None \<Rightarrow> False) \<and>
   (case dispatch ex_world 0 (ex_request ''cd'' [] None None False) (ex_shell \<lparr> exit_code := 768 \<rparr>) of
      Some (Inr s') \<Rightarrow> exit_code s' = 0 | Some (Inl a) \<Rightarrow> False | None \<Rightarrow> False) \<and>
   (case dispatch ex_world 0 (ex_request ''cd'' [''/nonexistent''] None None False) ex_shell of
      Some (Inr s') \<Rightarrow> exit_code s' = - 1 | Some (Inl a) \<Rightarrow> False | None \<Rightarrow> False) \<and>
   (case dispatch ex_world 7 (ex_request ''ls'' [] None None False) ex_shell of
      Some (Inr s') \<Rightarrow> exit_code s' = 768 | Some (Inl a) \<Rightarrow> False | None \<Rightarrow> False)"
proof -
  let ?s = "ex_shell \<lparr> exit_code := 768 \<rparr>"
  let ?x = "ex_shell \<lparr> exit_code := 768, program_status := False \<rparr>"
  have run: "program_status ?s = True" "program_status ex_shell = True" "program_status ?x = False"
    by (simp_all add: ex_shell_def)
  have "case dispatch ex_world 0 (ex_request ''exit'' [] None None False) ?x of
          Some (Inr s') \<Rightarrow> True | Some (Inl a) \<Rightarrow> False | None \<Rightarrow> False"
    by code_simp
  then obtain x' where x: "dispatch ex_world 0 (ex_request ''exit'' [] None None False) ?x = Some (Inr x')"
    by (auto split: option.splits sum.splits)
  have e: "child_ending ex_world (ex_request ''ls'' [] None None False) ex_shell 7 = Some (Exited 3)"
    by code_simp
  from last_status_updates[of ?s "ex_request ''status'' [] None None False" ex_world 0] run
  have a: "\<exists>s'. dispatch ex_world 0 (ex_request ''status'' [] None None False) ?s = Some (Inr s') \<and>
             exit_code s' = 768"
    by (simp add: ex_request_def)
  from last_status_updates[of ?x "ex_request ''exit'' [] None None False" ex_world 0] run x
  have b: "exit_code x' = 768" by simp
  from last_status_updates[of ?s "ex_request ''cd'' [] None None False" ex_world 0] run
  have c: "\<exists>s'. dispatch ex_world 0 (ex_request ''cd'' [] None None False) ?s = Some (Inr s') \<and>
             exit_code s' = 0"
    by (simp add: ex_request_def ex_world_def ex_shell_def)
  from last_status_updates[of ex_shell "ex_request ''cd'' [''/nonexistent''] None None False" ex_world 0] run
  have d: "\<exists>s'. dispatch ex_world 0 (ex_request ''cd'' [''/nonexistent''] None None False) ex_shell
                = Some (Inr s') \<and> exit_code s' = - 1"
    by (simp add: ex_request_def ex_world_def ex_shell_def)
  from last_status_updates[of ex_shell "ex_request ''ls'' [] None None False" ex_world 7 "''ls''"] run e
  have f: "\<exists>s'. dispatch ex_world 7 (ex_request ''ls'' [] None None False) ex_shell = Some (Inr s') \<and>
             exit_code s' = 768"
    by (simp add: ex_request_def)
  from a b c d f x show ?thesis by auto
qed

subsection \<open>The handler of \<open>SIGTSTP\<close>\<close>

text \<open>
  C6. Each run of \<open>set_foreground_mode\<close> flips \<open>foreground_mode\<close> and writes the notice
  of the new state with \<open>write\<close>, but the first call it makes is \<open>fflush(stdout)\<close>,
  which is not among the calls that are safe in a signal handler.
\<close>

theorem set_foreground_mode_calls:
  "foreground_mode (set_foreground_mode s) = (\<not> foreground_mode s) \<and>
   trace (set_foreground_mode s) =
     trace s @ [Fflush_stdout,
                Write_fd STDOUT_FILENO
                  (if foreground_mode s
                   then nl @ ''Exiting foreground-only mode'' @ nl @ '': ''
                   else nl @ ''Entering foreground-only mode (& is now ignored)'' @ nl @ '': '')] \<and>
   async_signal_safe Fflush_stdout = False"
  by (simp add: set_foreground_mode_def Let_def)

subsection \<open>The empty line\<close>

lemma get_input_empty_line:
  "parse_status s = True \<Longrightarrow> get_input w (Some nl) init_input s = Inl NullPointer"
  by (simp add: get_input_def nl_def init_input_def printf_def Let_def)

lemma get_input_empty_line_after_comment:
  "parse_status s = False \<Longrightarrow>
     get_input w (Some nl) init_input s = Inr (True, init_input, printf '': '' s)"
  by (simp add: get_input_def nl_def printf_def Let_def)

lemma wait_background_empty:
  "pid_head s = 0 \<Longrightarrow> wait_background w s = Some (Inr s)"
  by (simp add: wait_background_def wait_loop.simps)

text \<open>
  C10. An interpreter that has just started reads an empty line: \<open>parse_input\<close> is not
  called, \<open>parse_status\<close> still holds its initial \<open>TRUE\<close>, and \<open>get_input\<close> passes the
  \<open>NULL\<close> command of the fresh struct to \<open>strcmp\<close>.
\<close>

theorem empty_line_reads_null_command:
  "smallsh_main ex_world [ex_event [] 0 []] ex_shell = Some (Inl NullPointer)"
proof -
  have p: "parse_status (startup ex_shell) = True" "pid_head (startup ex_shell) = 0"
    by (simp_all add: startup_def parent_handler_def ignore_sigint_def)
  have "progress [] (startup ex_shell) = startup ex_shell"
    by (simp add: progress_def startup_def parent_handler_def ignore_sigint_def ex_shell_def)
  then have "loop_body ex_world (ex_event [] 0 []) (startup ex_shell) = Some (Inl NullPointer)"
    using p by (simp add: loop_body_def ex_event_def wait_background_empty get_input_empty_line)
  then show ?thesis by (simp add: smallsh_main_def main_from_def)
qed

subsection \<open>Two sweeps\<close>

text \<open>
  C2. Two background children have ended before a sweep. The sweep reports and removes
  the one at the head of the list, then reads \<open>temp->next\<close> in the cell it has just
  cleared and freed, and stops; the other child is reported by the next sweep.
\<close>

theorem second_sweep_reports:
  "(case wait_background ex_world ex_two_done of
      Some (Inr s1) \<Rightarrow>
        out s1 = [''background pid 6 is done: exit value 0'' @ nl] \<and>
        pid_head s1 = 1 \<and> uaf s1 = True \<and> procs s1 5 = Some (Zombie (Exited 0)) \<and>
        (case wait_background ex_world s1 of
           Some (Inr s2) \<Rightarrow>
             out s2 = [''background pid 6 is done: exit value 0'' @ nl,
                       ''background pid 5 is done: exit value 0'' @ nl] \<and>
             pid_head s2 = 0
         | Some (Inl a) \<Rightarrow> False | None \<Rightarrow> False)
    | Some (Inl a) \<Rightarrow> False | None \<Rightarrow> False)"
  by code_simp

subsection \<open>Walks along the list of background pids\<close>

















subsection \<open>Removing a cell from the list\<close>
















subsection \<open>The sweep leaves a list\<close>




subsection \<open>Leaving the interpreter\<close>






end
